theory Spec2Isabelle
  imports Main
begin

section \<open>The user reconciler of \<open>admin/manage_users_by.py\<close>\<close>

text \<open>
  The module holds one operation, \<open>update_user\<close>, which creates, updates or removes a
  Django account inside one database transaction. The model below follows the source
  line by line. Everything the module takes from Django or from the deployment is
  either spelled out from Django's definition (\<open>is_password_usable\<close>, the defaults of a
  new \<open>User\<close> row, the rollback of \<open>transaction.atomic\<close>) or is a field of the
  environment \<open>env\<close> (the optional import of \<open>UserProfile\<close>, the configured password
  hashers, Python's \<open>str.lower\<close>).
\<close>

subsection \<open>Data\<close>

text \<open>
  A row of the user table. The key, \<open>username\<close>, is the key of the table below;
  a new row has Django's column defaults.
\<close>

record user =
  email :: string
  is_staff :: bool
  is_superuser :: bool
  password :: string

text \<open>
  The database: the user table keyed by the unique username, the usernames that own a
  \<open>UserProfile\<close> row, the many-to-many table between users and groups, and the group
  table. \<open>Group.name\<close> is unique in Django, so a group is identified by its name.
\<close>

record database =
  users :: "string \<rightharpoonup> user"
  profiles :: "string set"
  user_groups :: "string \<Rightarrow> string set"
  group_table :: "string set"

text \<open>
  What the module takes from outside: \<open>UserProfile\<close> is \<open>None\<close> (here \<open>False\<close>) when the
  import of \<open>common.djangoapps.student.models\<close> fails; \<open>identify_hasher\<close> returns the
  algorithm of an encoded password, \<open>None\<close> standing for its \<open>ValueError\<close>;
  \<open>hasher_encode\<close> is the configured hasher applied to a raw password and a salt;
  \<open>str_lower\<close> is Python's \<open>str.lower\<close>, which folds the case of every cased letter of
  Unicode. Its table is not written out here: the model takes the function as it is, and
  every property below holds for whatever function it is.
\<close>

record env =
  UserProfile :: bool
  identify_hasher :: "string \<Rightarrow> string option"
  hasher_encode :: "string \<Rightarrow> string \<Rightarrow> string"
  str_lower :: "string \<Rightarrow> string"

text \<open>The random strings Django draws: the salt of \<open>set_password\<close> and the suffix of
  \<open>set_unusable_password\<close>.\<close>

record randomness =
  salt :: string
  unusable_suffix :: string

datatype error = CommandError string

text \<open>Output that no rollback undoes: \<open>sys.stderr.write\<close>, \<open>logger.error\<close>, \<open>print\<close>.\<close>

datatype event = StderrWrite string | LoggerError string | Print string

text \<open>
  The outcome of a call: the exception that left it, if any; the database afterwards;
  the output; and the attributes assigned on the in-memory user object (every
  \<open>setattr\<close>, \<open>user.password = ...\<close>, \<open>set_password\<close>, \<open>set_unusable_password\<close>), in order.
\<close>

record outcome =
  raised :: "error option"
  db :: database
  trace :: "event list"
  writes :: "string list"

subsection \<open>Django's helpers\<close>

definition UNUSABLE_PASSWORD_PREFIX :: string where
  "UNUSABLE_PASSWORD_PREFIX = ''!''"

text \<open>\<open>str.startswith\<close>.\<close>

definition startswith :: "string \<Rightarrow> string \<Rightarrow> bool" where
  "startswith s p = (take (length p) s = p)"

text \<open>Django (2.1 and later, the versions the docstring of \<open>is_valid_django_hash\<close>
  speaks of): \<open>encoded is None or not encoded.startswith(UNUSABLE_PASSWORD_PREFIX)\<close>.
  The module only passes strings.\<close>

definition is_password_usable :: "string \<Rightarrow> bool" where
  "is_password_usable encoded = (\<not> startswith encoded UNUSABLE_PASSWORD_PREFIX)"

definition has_usable_password :: "user \<Rightarrow> bool" where
  "has_usable_password u = is_password_usable (password u)"

text \<open>\<open>set_password(raw)\<close> stores \<open>make_password(raw)\<close>, the hasher's encoding of the
  raw password under a fresh salt.\<close>

definition set_password :: "env \<Rightarrow> randomness \<Rightarrow> string \<Rightarrow> user \<Rightarrow> user" where
  "set_password e rnd raw_password u = u\<lparr>password := hasher_encode e raw_password (salt rnd)\<rparr>"

text \<open>\<open>set_unusable_password()\<close> stores \<open>make_password(None)\<close>, the prefix followed by
  a random string.\<close>

definition set_unusable_password :: "randomness \<Rightarrow> user \<Rightarrow> user" where
  "set_unusable_password rnd u = u\<lparr>password := UNUSABLE_PASSWORD_PREFIX @ unusable_suffix rnd\<rparr>"

text \<open>\<open>get_or_create(username=username, defaults={'email': email})\<close>: the stored row,
  or a new row inserted at once with the given email and the column defaults.\<close>

definition get_or_create :: "string \<Rightarrow> string \<Rightarrow> database \<Rightarrow> user \<times> bool \<times> database" where
  "get_or_create username email_default d =
     (case users d username of
        Some u \<Rightarrow> (u, False, d)
      | None \<Rightarrow>
          (let u = \<lparr>email = email_default, is_staff = False, is_superuser = False, password = ''''\<rparr>
           in (u, True, d\<lparr>users := (users d)(username \<mapsto> u)\<rparr>)))"

text \<open>\<open>user.delete()\<close>: the row goes, and with it (cascading) its profile and its
  rows in the membership table.\<close>

definition delete_user :: "string \<Rightarrow> database \<Rightarrow> database" where
  "delete_user username d =
     d\<lparr>users := (users d)(username := None),
       profiles := profiles d - {username},
       user_groups := (user_groups d)(username := {})\<rparr>"

text \<open>\<open>Group.objects.get(name=group_name)\<close>, \<open>None\<close> standing for \<open>Group.DoesNotExist\<close>.\<close>

definition group_get :: "database \<Rightarrow> string \<Rightarrow> string option" where
  "group_get d group_name = (if group_name \<in> group_table d then Some group_name else None)"

text \<open>\<open>transaction.atomic\<close>: when the wrapped function leaves by an exception, the
  database is as it was before the call; the exception propagates.\<close>

definition atomic :: "(database \<Rightarrow> outcome) \<Rightarrow> database \<Rightarrow> outcome" where
  "atomic f d = (let r = f d in case raised r of None \<Rightarrow> r | Some e \<Rightarrow> r\<lparr>db := d\<rparr>)"

subsection \<open>The module's functions\<close>

text \<open>The messages (\<open>_\<close> is gettext; the module ships no catalogue, so a message is its
  English text).\<close>

definition quoted :: "string \<Rightarrow> string" where
  "quoted s = [CHR 0x22] @ s @ [CHR 0x22]"

definition entering_message :: "string \<Rightarrow> string" where
  "entering_message username = ''Entering into method for : '' @ quoted username"

definition created_message :: "string \<Rightarrow> string" where
  "created_message username = ''Created new user: '' @ quoted username"

definition email_mismatch_message :: "string \<Rightarrow> string" where
  "email_mismatch_message username =
     ''Skipping user '' @ quoted username @
     '' because the specified and existing email addresses do not match.''"

definition invalid_hash_message :: "string \<Rightarrow> string" where
  "invalid_hash_message username =
     ''The password hash provided for user '' @ username @ '' is invalid.''"

definition is_valid_django_hash :: "env \<Rightarrow> string \<Rightarrow> bool" where
  "is_valid_django_hash e encoded =
     (case identify_hasher e encoded of None \<Rightarrow> False | Some hasher \<Rightarrow> True)"

text \<open>\<open>_maybe_update\<close>, with the attribute given by its name, its getter and its setter.
  The result is the object and the attributes assigned.\<close>

definition maybe_update ::
  "string \<Rightarrow> (user \<Rightarrow> 'a) \<Rightarrow> ('a \<Rightarrow> user \<Rightarrow> user) \<Rightarrow> user \<Rightarrow> 'a \<Rightarrow> user \<times> string list" where
  "maybe_update attribute getattr setattr u new_value =
     (let old_value = getattr u
      in if new_value \<noteq> old_value then (setattr new_value u, [attribute]) else (u, []))"

text \<open>\<open>_check_email_match\<close>: the exception, if it raises.\<close>

definition check_email_match :: "env \<Rightarrow> string \<Rightarrow> user \<Rightarrow> string \<Rightarrow> error option" where
  "check_email_match e username u email_given =
     (if str_lower e (email u) \<noteq> str_lower e email_given
      then Some (CommandError (email_mismatch_message username))
      else None)"

definition handle_remove :: "env \<Rightarrow> string \<Rightarrow> string \<Rightarrow> database \<Rightarrow> outcome" where
  "handle_remove e username email_given d =
     (case users d username of
        None \<Rightarrow> \<lparr>raised = None, db = d, trace = [Print username], writes = []\<rparr>
      | Some u \<Rightarrow>
          (case check_email_match e username u email_given of
             Some err \<Rightarrow> \<lparr>raised = Some err, db = d, trace = [Print username], writes = []\<rparr>
           | None \<Rightarrow>
               \<lparr>raised = None, db = delete_user username d, trace = [Print username],
                writes = []\<rparr>))"

text \<open>The loop of lines 122 to 128 over \<open>groups or set()\<close>, with \<open>new_groups\<close> as
  accumulator.\<close>

fun resolve_groups :: "database \<Rightarrow> string list \<Rightarrow> string set \<Rightarrow> string set" where
  "resolve_groups d [] new_groups = new_groups"
| "resolve_groups d (group_name # rest) new_groups =
     (case group_get d group_name of
        Some g \<Rightarrow> resolve_groups d rest (insert g new_groups)
      | None \<Rightarrow> resolve_groups d rest new_groups)"

text \<open>Lines 93 to 106: what the branch on \<open>created\<close> leaves, either the exception or
  the object, \<open>old_groups\<close> and the attributes assigned. \<open>if initial_password_hash:\<close> is
  Python's truth value: \<open>None\<close> and the empty string both take the \<open>else\<close> branch.\<close>

definition created_branch ::
  "env \<Rightarrow> randomness \<Rightarrow> string \<Rightarrow> string \<Rightarrow> string option \<Rightarrow> database \<Rightarrow> user \<Rightarrow> bool \<Rightarrow>
   error + (user \<times> string set \<times> string list)" where
  "created_branch e rnd username email_given initial_password_hash d u created =
     (if created then
        (case initial_password_hash of
           None \<Rightarrow> Inr (set_password e rnd ''dummypassword'' u, {}, [''password''])
         | Some h \<Rightarrow>
             (if h \<noteq> [] then
                (if \<not> (is_password_usable h \<and> is_valid_django_hash e h)
                 then Inl (CommandError (invalid_hash_message username))
                 else Inr (u\<lparr>password := h\<rparr>, {}, [''password'']))
              else Inr (set_password e rnd ''dummypassword'' u, {}, [''password''])))
      else
        (case check_email_match e username u email_given of
           Some err \<Rightarrow> Inl err
         | None \<Rightarrow> Inr (u, user_groups d username, [])))"

text \<open>The body of \<open>update_user\<close>, before the decorator: the database it returns is the
  one its statements have written so far, also when it raises.\<close>

definition update_user_body ::
  "env \<Rightarrow> randomness \<Rightarrow> string \<Rightarrow> string \<Rightarrow> bool \<Rightarrow> bool \<Rightarrow> bool \<Rightarrow> string list option \<Rightarrow> bool \<Rightarrow>
   string option \<Rightarrow> database \<Rightarrow> outcome" where
  "update_user_body e rnd username email_given is_remove staff superuser groups
     unusable_password initial_password_hash d =
     (let entering = [StderrWrite (entering_message username)] in
      if \<not> UserProfile e then
        \<lparr>raised = None, db = d,
         trace = entering @ [LoggerError ''UserProfile module does not exist.''], writes = []\<rparr>
      else if is_remove then
        (let r = handle_remove e username email_given d in r\<lparr>trace := entering @ trace r\<rparr>)
      else
        (case get_or_create username email_given d of (u0, created, d1) \<Rightarrow>
          (case created_branch e rnd username email_given initial_password_hash d1 u0 created of
             Inl err \<Rightarrow> \<lparr>raised = Some err, db = d1, trace = entering, writes = []\<rparr>
           | Inr (u1, old_groups, w1) \<Rightarrow>
              (case maybe_update ''is_staff'' is_staff (\<lambda>v x. x\<lparr>is_staff := v\<rparr>) u1 staff of
                (u2, w2) \<Rightarrow>
              (case maybe_update ''is_superuser'' is_superuser (\<lambda>v x. x\<lparr>is_superuser := v\<rparr>) u2
                      superuser of
                (u3, w3) \<Rightarrow>
              (let (u4, w4) =
                     (if unusable_password \<and> has_usable_password u3
                      then (set_unusable_password rnd u3, [''password''])
                      else (u3, []));
                   d2 = (if username \<in> profiles d1 then d1
                         else d1\<lparr>profiles := insert username (profiles d1)\<rparr>);
                   new_groups =
                     resolve_groups d2 (case groups of None \<Rightarrow> [] | Some names \<Rightarrow> names) {};
                   add_groups = new_groups - old_groups;
                   remove_groups = old_groups - new_groups;
                   d3 = d2\<lparr>user_groups := (user_groups d2)(username := new_groups)\<rparr>;
                   d4 = d3\<lparr>users := (users d3)(username \<mapsto> u4)\<rparr>
               in \<lparr>raised = None, db = d4,
                   trace = entering @ [StderrWrite (created_message username)],
                   writes = w1 @ w2 @ w3 @ w4\<rparr>))))))"

definition update_user ::
  "env \<Rightarrow> randomness \<Rightarrow> string \<Rightarrow> string \<Rightarrow> bool \<Rightarrow> bool \<Rightarrow> bool \<Rightarrow> string list option \<Rightarrow> bool \<Rightarrow>
   string option \<Rightarrow> database \<Rightarrow> outcome" where
  "update_user e rnd username email_given is_remove staff superuser groups
     unusable_password initial_password_hash d =
     atomic (update_user_body e rnd username email_given is_remove staff superuser groups
               unusable_password initial_password_hash) d"

subsection \<open>Example data\<close>

text \<open>
  The examples use ASCII strings only. On those \<open>str.lower\<close> is the fold of the letters
  \<open>A\<close> to \<open>Z\<close> (codes 65 to 90) to the letters 32 above, bit 5 set, and leaves the other
  characters as they are; the example deployment uses this restriction of it.
\<close>

definition ascii_lower_char :: "char \<Rightarrow> char" where
  "ascii_lower_char c =
     (if 65 \<le> (of_char c :: nat) \<and> (of_char c :: nat) \<le> 90
      then (case c of Char b0 b1 b2 b3 b4 b5 b6 b7 \<Rightarrow> Char b0 b1 b2 b3 b4 True b6 b7)
      else c)"

definition ascii_lower :: "string \<Rightarrow> string" where
  "ascii_lower s = map ascii_lower_char s"

text \<open>
  A deployment with the profile module and a single hasher, \<open>md5\<close>: the algorithm of an
  encoded password is what stands before its first \<open>$\<close>, as in Django's
  \<open>identify_hasher\<close>. The encoding is a stand-in that keeps salt and raw password
  readable. The second deployment lacks the profile module.
\<close>

definition example_env :: env where
  "example_env =
     \<lparr>UserProfile = True,
      identify_hasher =
        (\<lambda>encoded. if takeWhile (\<lambda>c. c \<noteq> CHR ''$'') encoded = ''md5'' then Some ''md5'' else None),
      hasher_encode = (\<lambda>raw_password s. ''md5$'' @ s @ ''$'' @ raw_password),
      str_lower = ascii_lower\<rparr>"

definition example_env_no_profile :: env where
  "example_env_no_profile = example_env\<lparr>UserProfile := False\<rparr>"

definition example_rnd :: randomness where
  "example_rnd = \<lparr>salt = ''s1'', unusable_suffix = ''x7''\<rparr>"

definition example_rnd' :: randomness where
  "example_rnd' = \<lparr>salt = ''s2'', unusable_suffix = ''y8''\<rparr>"

text \<open>An empty user table beside one group; and a directory with the account \<open>alice\<close>,
  member of \<open>A\<close> and \<open>B\<close>, where the groups \<open>A\<close>, \<open>B\<close> and \<open>C\<close> exist.\<close>

definition example_empty :: database where
  "example_empty =
     \<lparr>users = Map.empty, profiles = {}, user_groups = (\<lambda>name. {}),
      group_table = {''staff-group''}\<rparr>"

definition example_alice :: user where
  "example_alice =
     \<lparr>email = ''Alice@X.com'', is_staff = False, is_superuser = False, password = ''md5$ab$pw''\<rparr>"

definition example_db :: database where
  "example_db =
     \<lparr>users = [''alice'' \<mapsto> example_alice], profiles = {''alice''},
      user_groups = (\<lambda>name. if name = ''alice'' then {''A'', ''B''} else {}),
      group_table = {''A'', ''B'', ''C''}\<rparr>"

text \<open>The same directory after \<open>alice\<close>'s credential was marked unusable.\<close>

definition example_locked_db :: database where
  "example_locked_db =
     example_db\<lparr>users := [''alice'' \<mapsto> example_alice\<lparr>password := ''!old''\<rparr>]\<rparr>"

section \<open>Properties\<close>

subsection \<open>The paths of \<open>update_user\<close>\<close>

lemma resolve_groups_eq:
  "resolve_groups d names acc = acc \<union> {g \<in> set names. g \<in> group_table d}"
  by (induction names arbitrary: acc) (auto simp: group_get_def)

lemma resolve_groups_profiles [simp]:
  "resolve_groups (d\<lparr>profiles := p\<rparr>) names acc = resolve_groups d names acc"
  by (simp add: resolve_groups_eq)

lemma resolve_groups_users [simp]:
  "resolve_groups (d\<lparr>users := p\<rparr>) names acc = resolve_groups d names acc"
  by (simp add: resolve_groups_eq)

lemma resolve_groups_user_groups [simp]:
  "resolve_groups (d\<lparr>user_groups := p\<rparr>) names acc = resolve_groups d names acc"
  by (simp add: resolve_groups_eq)

lemma maybe_update_staff:
  "maybe_update a is_staff (\<lambda>v x. x\<lparr>is_staff := v\<rparr>) u v = (u\<lparr>is_staff := v\<rparr>, if v \<noteq> is_staff u then [a] else [])"
  by (simp add: maybe_update_def)

lemma maybe_update_superuser:
  "maybe_update a is_superuser (\<lambda>v x. x\<lparr>is_superuser := v\<rparr>) u v =
     (u\<lparr>is_superuser := v\<rparr>, if v \<noteq> is_superuser u then [a] else [])"
  by (simp add: maybe_update_def)

lemma unusable_not_usable [simp]:
  "\<not> is_password_usable (UNUSABLE_PASSWORD_PREFIX @ s)"
  by (simp add: is_password_usable_def startswith_def UNUSABLE_PASSWORD_PREFIX_def)

lemma atomic_ok: "raised (f d) = None \<Longrightarrow> atomic f d = f d"
  by (simp add: atomic_def)

lemma atomic_raised: "raised (f d) = Some err \<Longrightarrow> atomic f d = (f d)\<lparr>db := d\<rparr>"
  by (simp add: atomic_def)

lemma body_guard:
  "\<not> UserProfile e \<Longrightarrow>
   update_user_body e rnd username em rm st su gs up iph d =
     \<lparr>raised = None, db = d,
      trace = [StderrWrite (entering_message username),
               LoggerError ''UserProfile module does not exist.''],
      writes = []\<rparr>"
  by (simp add: update_user_body_def)

lemma body_mismatch:
  assumes "UserProfile e" "users d username = Some u" "str_lower e (email u) \<noteq> str_lower e em"
  shows "update_user_body e rnd username em rm st su gs up iph d =
    \<lparr>raised = Some (CommandError (email_mismatch_message username)), db = d,
     trace = StderrWrite (entering_message username) # (if rm then [Print username] else []),
     writes = []\<rparr>"
  using assms
  by (simp add: update_user_body_def get_or_create_def created_branch_def check_email_match_def
      handle_remove_def)

lemma body_existing:
  assumes "UserProfile e" "users d username = Some u" "str_lower e (email u) = str_lower e em"
  shows "update_user_body e rnd username em False st su gs up iph d =
    \<lparr>raised = None,
     db = d\<lparr>profiles := insert username (profiles d),
            user_groups := (user_groups d)
               (username := resolve_groups d (case gs of None \<Rightarrow> [] | Some names \<Rightarrow> names) {}),
            users := (users d)(username \<mapsto>
               u\<lparr>is_staff := st, is_superuser := su,
                 password := (if up \<and> is_password_usable (password u)
                              then UNUSABLE_PASSWORD_PREFIX @ unusable_suffix rnd else password u)\<rparr>)\<rparr>,
     trace = [StderrWrite (entering_message username), StderrWrite (created_message username)],
     writes = (if st \<noteq> is_staff u then [''is_staff''] else []) @
              (if su \<noteq> is_superuser u then [''is_superuser''] else []) @
              (if up \<and> is_password_usable (password u) then [''password''] else [])\<rparr>"
  using assms
  by (simp add: update_user_body_def get_or_create_def created_branch_def check_email_match_def
      maybe_update_staff maybe_update_superuser has_usable_password_def set_unusable_password_def
      Let_def insert_absorb)

lemma body_created:
  assumes "UserProfile e" "users d username = None"
    and "created_branch e rnd username em iph
           (d\<lparr>users := (users d)(username \<mapsto>
               \<lparr>email = em, is_staff = False, is_superuser = False, password = ''''\<rparr>)\<rparr>)
           \<lparr>email = em, is_staff = False, is_superuser = False, password = ''''\<rparr> True =
         Inr (\<lparr>email = em, is_staff = False, is_superuser = False, password = p\<rparr>, {}, [''password''])"
  shows "update_user_body e rnd username em False st su gs up iph d =
    \<lparr>raised = None,
     db = d\<lparr>profiles := insert username (profiles d),
            user_groups := (user_groups d)
               (username := resolve_groups d (case gs of None \<Rightarrow> [] | Some names \<Rightarrow> names) {}),
            users := (users d)(username \<mapsto>
               \<lparr>email = em, is_staff = st, is_superuser = su,
                password = (if up \<and> is_password_usable p
                            then UNUSABLE_PASSWORD_PREFIX @ unusable_suffix rnd else p)\<rparr>)\<rparr>,
     trace = [StderrWrite (entering_message username), StderrWrite (created_message username)],
     writes = [''password''] @ (if st then [''is_staff''] else []) @
              (if su then [''is_superuser''] else []) @
              (if up \<and> is_password_usable p then [''password''] else [])\<rparr>"
  using assms
  by (simp add: update_user_body_def get_or_create_def 
      maybe_update_staff maybe_update_superuser has_usable_password_def set_unusable_password_def
      Let_def insert_absorb)

lemma created_branch_dummy:
  "iph = None \<or> iph = Some [] \<Longrightarrow>
   created_branch e rnd username em iph d1
     \<lparr>email = em, is_staff = False, is_superuser = False, password = ''''\<rparr> True =
   Inr (\<lparr>email = em, is_staff = False, is_superuser = False,
        password = hasher_encode e ''dummypassword'' (salt rnd)\<rparr>, {}, [''password''])"
  by (auto simp: created_branch_def set_password_def)

lemma created_branch_hash:
  "h \<noteq> [] \<Longrightarrow> is_password_usable h \<Longrightarrow> is_valid_django_hash e h \<Longrightarrow>
   created_branch e rnd username em (Some h) d1
     \<lparr>email = em, is_staff = False, is_superuser = False, password = ''''\<rparr> True =
   Inr (\<lparr>email = em, is_staff = False, is_superuser = False, password = h\<rparr>, {}, [''password''])"
  by (simp add: created_branch_def)

lemma body_invalid_hash:
  assumes "UserProfile e" "users d username = None" "h \<noteq> []"
    "\<not> (is_password_usable h \<and> is_valid_django_hash e h)"
  shows "update_user_body e rnd username em False st su gs up (Some h) d =
    \<lparr>raised = Some (CommandError (invalid_hash_message username)),
     db = d\<lparr>users := (users d)(username \<mapsto>
               \<lparr>email = em, is_staff = False, is_superuser = False, password = ''''\<rparr>)\<rparr>,
     trace = [StderrWrite (entering_message username)], writes = []\<rparr>"
  using assms
  by (auto simp add: update_user_body_def get_or_create_def created_branch_def Let_def)

lemma update_user_guard:
  "\<not> UserProfile e \<Longrightarrow>
   update_user e rnd username em rm st su gs up iph d =
     \<lparr>raised = None, db = d,
      trace = [StderrWrite (entering_message username),
               LoggerError ''UserProfile module does not exist.''],
      writes = []\<rparr>"
  by (simp add: update_user_def atomic_def body_guard)

lemma update_user_mismatch:
  assumes "UserProfile e" "users d username = Some u" "str_lower e (email u) \<noteq> str_lower e em"
  shows "update_user e rnd username em rm st su gs up iph d =
    \<lparr>raised = Some (CommandError (email_mismatch_message username)), db = d,
     trace = StderrWrite (entering_message username) # (if rm then [Print username] else []),
     writes = []\<rparr>"
  by (simp add: update_user_def atomic_def body_mismatch [OF assms])

lemma update_user_existing:
  assumes "UserProfile e" "users d username = Some u" "str_lower e (email u) = str_lower e em"
  shows "update_user e rnd username em False st su gs up iph d =
         update_user_body e rnd username em False st su gs up iph d"
  by (simp add: update_user_def atomic_def body_existing [OF assms])

lemma update_user_created:
  assumes "UserProfile e" "users d username = None"
    and "created_branch e rnd username em iph
           (d\<lparr>users := (users d)(username \<mapsto>
               \<lparr>email = em, is_staff = False, is_superuser = False, password = ''''\<rparr>)\<rparr>)
           \<lparr>email = em, is_staff = False, is_superuser = False, password = ''''\<rparr> True =
         Inr (\<lparr>email = em, is_staff = False, is_superuser = False, password = p\<rparr>, {}, [''password''])"
  shows "update_user e rnd username em False st su gs up iph d =
         update_user_body e rnd username em False st su gs up iph d"
  by (simp add: update_user_def atomic_def body_created [OF assms])

lemma update_user_invalid_hash:
  assumes "UserProfile e" "users d username = None" "h \<noteq> []"
    "\<not> (is_password_usable h \<and> is_valid_django_hash e h)"
  shows "update_user e rnd username em False st su gs up (Some h) d =
    \<lparr>raised = Some (CommandError (invalid_hash_message username)), db = d,
     trace = [StderrWrite (entering_message username)], writes = []\<rparr>"
  by (simp add: update_user_def atomic_def body_invalid_hash [OF assms])

lemma created_branch_empty_hash:
  "created_branch e rnd username em (Some []) d u created =
   created_branch e rnd username em None d u created"
  by (simp add: created_branch_def)

lemma body_empty_hash:
  "update_user_body e rnd username em rm st su gs up (Some []) d =
   update_user_body e rnd username em rm st su gs up None d"
  by (simp only: update_user_body_def created_branch_empty_hash)

lemma update_user_empty_hash:
  "update_user e rnd username em rm st su gs up (Some []) d =
   update_user e rnd username em rm st su gs up None d"
  by (simp add: update_user_def atomic_def body_empty_hash)

lemma second_run_existing:
  assumes "UserProfile e" "users d username = Some u" "str_lower e (email u) = str_lower e em"
  shows "update_user e rnd2 username em False st su gs up iph
           (db (update_user e rnd1 username em False st su gs up iph d)) =
         (update_user e rnd1 username em False st su gs up iph d)\<lparr>writes := []\<rparr>"
proof -
  let ?p = "if up \<and> is_password_usable (password u)
            then UNUSABLE_PASSWORD_PREFIX @ unusable_suffix rnd1 else password u"
  let ?u = "u\<lparr>is_staff := st, is_superuser := su, password := ?p\<rparr>"
  let ?d = "db (update_user_body e rnd1 username em False st su gs up iph d)"
  have u: "users ?d username = Some ?u"
    by (simp add: body_existing [OF assms])
  have em: "str_lower e (email ?u) = str_lower e em"
    using assms(3) by simp
  have up: "\<not> (up \<and> is_password_usable (password ?u))"
    by simp
  have "update_user_body e rnd2 username em False st su gs up iph ?d =
        (update_user_body e rnd1 username em False st su gs up iph d)\<lparr>writes := []\<rparr>"
    unfolding body_existing [OF assms(1) u em]
    by (simp add: body_existing [OF assms] up)
  then show ?thesis
    by (simp add: update_user_existing [OF assms] update_user_existing [OF assms(1) u em])
qed

lemma second_run_created:
  assumes "UserProfile e" "users d username = None"
    and c: "created_branch e rnd1 username em iph
           (d\<lparr>users := (users d)(username \<mapsto>
               \<lparr>email = em, is_staff = False, is_superuser = False, password = ''''\<rparr>)\<rparr>)
           \<lparr>email = em, is_staff = False, is_superuser = False, password = ''''\<rparr> True =
         Inr (\<lparr>email = em, is_staff = False, is_superuser = False, password = p\<rparr>, {}, [''password''])"
  shows "update_user e rnd2 username em False st su gs up iph
           (db (update_user e rnd1 username em False st su gs up iph d)) =
         (update_user e rnd1 username em False st su gs up iph d)\<lparr>writes := []\<rparr>"
proof -
  let ?p = "if up \<and> is_password_usable p
            then UNUSABLE_PASSWORD_PREFIX @ unusable_suffix rnd1 else p"
  let ?u = "\<lparr>email = em, is_staff = st, is_superuser = su, password = ?p\<rparr>"
  let ?d = "db (update_user_body e rnd1 username em False st su gs up iph d)"
  note b = body_created [OF assms]
  have u: "users ?d username = Some ?u"
    by (simp add: b)
  have em: "str_lower e (email ?u) = str_lower e em"
    by simp
  have up: "\<not> (up \<and> is_password_usable (password ?u))"
    by simp
  have "update_user_body e rnd2 username em False st su gs up iph ?d =
        (update_user_body e rnd1 username em False st su gs up iph d)\<lparr>writes := []\<rparr>"
    unfolding body_existing [OF assms(1) u em]
    by (simp add: b up)
  then show ?thesis
    by (simp add: update_user_created [OF assms] update_user_existing [OF assms(1) u em])
qed

lemma created_branch_cases:
  "(\<exists>h. iph = Some h \<and> h \<noteq> [] \<and> \<not> (is_password_usable h \<and> is_valid_django_hash e h)) \<or>
   (\<exists>p. created_branch e rnd username em iph d1
           \<lparr>email = em, is_staff = False, is_superuser = False, password = ''''\<rparr> True =
         Inr (\<lparr>email = em, is_staff = False, is_superuser = False, password = p\<rparr>, {},
              [''password'']))"
  by (cases iph) (auto simp: created_branch_def set_password_def)

lemma body_remove_match:
  assumes "UserProfile e" "users d username = Some u" "str_lower e (email u) = str_lower e em"
  shows "update_user_body e rnd username em True st su gs up iph d =
    \<lparr>raised = None, db = delete_user username d,
     trace = [StderrWrite (entering_message username), Print username], writes = []\<rparr>"
  using assms
  by (simp add: update_user_body_def handle_remove_def check_email_match_def)

lemma body_remove_absent:
  assumes "UserProfile e" "users d username = None"
  shows "update_user_body e rnd username em True st su gs up iph d =
    \<lparr>raised = None, db = d,
     trace = [StderrWrite (entering_message username), Print username], writes = []\<rparr>"
  using assms
  by (simp add: update_user_body_def handle_remove_def)

lemma update_user_remove_match:
  assumes "UserProfile e" "users d username = Some u" "str_lower e (email u) = str_lower e em"
  shows "update_user e rnd username em True st su gs up iph d =
    \<lparr>raised = None, db = delete_user username d,
     trace = [StderrWrite (entering_message username), Print username], writes = []\<rparr>"
  by (simp add: update_user_def atomic_def body_remove_match [OF assms])

lemma update_user_success_cases:
  assumes "UserProfile e"
    and "raised (update_user e rnd username em False st su gs up iph d) = None"
  obtains (existing) u where "users d username = Some u" "str_lower e (email u) = str_lower e em"
  | (created) p where "users d username = None"
      "created_branch e rnd username em iph
           (d\<lparr>users := (users d)(username \<mapsto>
               \<lparr>email = em, is_staff = False, is_superuser = False, password = ''''\<rparr>)\<rparr>)
           \<lparr>email = em, is_staff = False, is_superuser = False, password = ''''\<rparr> True =
         Inr (\<lparr>email = em, is_staff = False, is_superuser = False, password = p\<rparr>, {}, [''password''])"
proof (cases "users d username")
  case (Some u)
  show ?thesis
  proof (cases "str_lower e (email u) = str_lower e em")
    case True
    with Some show ?thesis by (rule existing)
  next
    case False
    with assms Some show ?thesis
      by (simp add: update_user_mismatch)
  qed
next
  case None
  from created_branch_cases [of iph e rnd username em
      "d\<lparr>users := (users d)(username \<mapsto>
          \<lparr>email = em, is_staff = False, is_superuser = False, password = ''''\<rparr>)\<rparr>"]
  show ?thesis
  proof (elim disjE exE conjE)
    fix h
    assume h: "iph = Some h" "h \<noteq> []"
      "\<not> (is_password_usable h \<and> is_valid_django_hash e h)"
    with assms None show ?thesis
      by (simp add: update_user_invalid_hash)
  next
    fix p
    assume "created_branch e rnd username em iph
         (d\<lparr>users := (users d)(username \<mapsto>
             \<lparr>email = em, is_staff = False, is_superuser = False, password = ''''\<rparr>)\<rparr>)
         \<lparr>email = em, is_staff = False, is_superuser = False, password = ''''\<rparr> True =
       Inr (\<lparr>email = em, is_staff = False, is_superuser = False, password = p\<rparr>, {}, [''password''])"
    with None show ?thesis by (rule created)
  qed
qed

lemma example_resolved:
  "{g \<in> set [''B'', ''C'', ''Z'']. g \<in> group_table example_db} = {''B'', ''C''}"
  by (simp add: example_db_def set_eq_iff) blast

lemma example_groups_differ: "{''A'', ''B''} \<noteq> {''B'', ''C''}"
proof
  assume "{''A'', ''B''} = {''B'', ''C''}"
  moreover have "''A'' \<in> {''A'', ''B''}" by simp
  ultimately have "''A'' \<in> {''B'', ''C''}" by (rule subst)
  then show False by simp
qed

lemma update_user_raised:
  "raised (update_user e rnd username em rm st su gs up iph d) =
   raised (update_user_body e rnd username em rm st su gs up iph d)"
  by (simp add: update_user_def atomic_def Let_def split: option.split)

lemma update_user_db:
  "db (update_user e rnd username em rm st su gs up iph d) =
   (case raised (update_user_body e rnd username em rm st su gs up iph d) of
      Some err \<Rightarrow> d
    | None \<Rightarrow> db (update_user_body e rnd username em rm st su gs up iph d))"
  by (simp add: update_user_def atomic_def Let_def split: option.split)

lemma created_branch_password:
  assumes "created_branch e rnd username em iph d1
             \<lparr>email = em, is_staff = False, is_superuser = False, password = ''''\<rparr> True =
           Inr (\<lparr>email = em, is_staff = False, is_superuser = False, password = p\<rparr>, {},
                [''password''])"
  shows "p = (case iph of
                None \<Rightarrow> hasher_encode e ''dummypassword'' (salt rnd)
              | Some h \<Rightarrow> if h \<noteq> [] then h else hasher_encode e ''dummypassword'' (salt rnd))"
  using assms
  by (auto simp: created_branch_def set_password_def split: option.splits if_splits)

subsection \<open>The claims\<close>

text \<open>
  C1, amended. On a first creation (username absent, not remove mode) with the
  \<open>UserProfile\<close> module present, a non-empty \<open>initial_password_hash\<close> that is unusable
  (it begins with \<open>!\<close>) or that no configured hasher recognises makes \<open>update_user\<close> raise
  the \<open>CommandError\<close> about the invalid hash, and the account is not created: the row that
  \<open>get_or_create\<close> had inserted is rolled back. An empty string is no hash at all: the
  call is the one with \<open>None\<close>.
\<close>

theorem C1_invalid_hash_rejected:
  assumes "UserProfile e" "users d username = None" "h \<noteq> []"
    "\<not> (is_password_usable h \<and> is_valid_django_hash e h)"
  shows "raised (update_user e rnd username em False st su gs up (Some h) d) =
           Some (CommandError (invalid_hash_message username)) \<and>
         db (update_user e rnd username em False st su gs up (Some h) d) = d \<and>
         users (db (update_user e rnd username em False st su gs up (Some h) d)) username = None \<and>
         users (db (update_user_body e rnd username em False st su gs up (Some h) d)) username =
           Some \<lparr>email = em, is_staff = False, is_superuser = False, password = ''''\<rparr> \<and>
         update_user e rnd username em False st su gs up (Some []) d =
           update_user e rnd username em False st su gs up None d"
  using assms(2)
  by (simp add: update_user_invalid_hash [OF assms] body_invalid_hash [OF assms]
      update_user_empty_hash)

theorem C1_witness:
  "UserProfile example_env \<and> users example_empty ''alice'' = None \<and> ''garbage'' \<noteq> [] \<and>
   \<not> (is_password_usable ''garbage'' \<and> is_valid_django_hash example_env ''garbage'') \<and>
   raised (update_user example_env example_rnd ''alice'' ''a@x.com'' False True False None False
             (Some ''garbage'') example_empty) =
     Some (CommandError (invalid_hash_message ''alice'')) \<and>
   db (update_user example_env example_rnd ''alice'' ''a@x.com'' False True False None False
             (Some ''garbage'') example_empty) = example_empty"
proof -
  have h1: "UserProfile example_env" by (simp add: example_env_def)
  have h2: "users example_empty ''alice'' = None" by (simp add: example_empty_def)
  have h3: "''garbage'' \<noteq> []" by simp
  have h4: "\<not> (is_password_usable ''garbage'' \<and> is_valid_django_hash example_env ''garbage'')"
    by (simp add: is_valid_django_hash_def example_env_def)
  show ?thesis
    using h1 h2 h4
      C1_invalid_hash_rejected [OF h1 h2 h3 h4, of example_rnd "''a@x.com''" True False None False]
    by simp
qed

text \<open>As stated, C1 fails: with the empty string as hash the account is created, under
  the fixed password, and nothing is raised; and without the \<open>UserProfile\<close> module a
  malformed hash raises nothing either.\<close>

theorem C1_counterexample:
  "users example_empty ''alice'' = None \<and>
   raised (update_user example_env example_rnd ''alice'' ''a@x.com'' False True False None False
             (Some '''') example_empty) = None \<and>
   users (db (update_user example_env example_rnd ''alice'' ''a@x.com'' False True False None False
             (Some '''') example_empty)) ''alice'' =
     Some \<lparr>email = ''a@x.com'', is_staff = True, is_superuser = False,
           password = ''md5$s1$dummypassword''\<rparr> \<and>
   \<not> is_valid_django_hash example_env_no_profile ''garbage'' \<and>
   raised (update_user example_env_no_profile example_rnd ''alice'' ''a@x.com'' False True False
             None False (Some ''garbage'') example_empty) = None"
proof -
  have h1: "UserProfile example_env" by (simp add: example_env_def)
  have h2: "users example_empty ''alice'' = None" by (simp add: example_empty_def)
  have h3: "\<not> UserProfile example_env_no_profile"
    by (simp add: example_env_no_profile_def)
  have c: "created_branch example_env example_rnd ''alice'' ''a@x.com'' (Some [])
             (example_empty\<lparr>users := (users example_empty)(''alice'' \<mapsto>
                \<lparr>email = ''a@x.com'', is_staff = False, is_superuser = False, password = ''''\<rparr>)\<rparr>)
             \<lparr>email = ''a@x.com'', is_staff = False, is_superuser = False, password = ''''\<rparr> True =
           Inr (\<lparr>email = ''a@x.com'', is_staff = False, is_superuser = False,
                password = hasher_encode example_env ''dummypassword'' (salt example_rnd)\<rparr>,
                {}, [''password''])"
    by (rule created_branch_dummy) simp
  have enc: "hasher_encode example_env ''dummypassword'' (salt example_rnd) = ''md5$s1$dummypassword''"
    by (simp add: example_env_def example_rnd_def)
  have v: "\<not> is_valid_django_hash example_env_no_profile ''garbage''"
    by (simp add: is_valid_django_hash_def example_env_no_profile_def example_env_def)
  show ?thesis
    using h2 v
    by (simp add: update_user_created [OF h1 h2 c] body_created [OF h1 h2 c] enc
        update_user_guard [OF h3])
qed

text \<open>
  C2. The specification asks for a random password that the caller does not know, and so
  does the comment in the code; the statement under that comment is
  \<open>set_password('dummypassword')\<close>. A created account without a hash therefore holds,
  whatever the salt, the encoding of this one fixed password.
\<close>

theorem C2_created_password_is_dummypassword:
  assumes "UserProfile e" "users d username = None"
  shows "users (db (update_user e rnd username em False st su gs False None d)) username =
           Some \<lparr>email = em, is_staff = st, is_superuser = su,
                 password = hasher_encode e ''dummypassword'' (salt rnd)\<rparr>"
proof -
  have c: "created_branch e rnd username em None
             (d\<lparr>users := (users d)(username \<mapsto>
                \<lparr>email = em, is_staff = False, is_superuser = False, password = ''''\<rparr>)\<rparr>)
             \<lparr>email = em, is_staff = False, is_superuser = False, password = ''''\<rparr> True =
           Inr (\<lparr>email = em, is_staff = False, is_superuser = False,
                password = hasher_encode e ''dummypassword'' (salt rnd)\<rparr>, {}, [''password''])"
    by (rule created_branch_dummy) simp
  show ?thesis
    by (simp add: update_user_created [OF assms c] body_created [OF assms c])
qed

theorem C2_witness:
  "UserProfile example_env \<and> users example_empty ''alice'' = None \<and>
   users (db (update_user example_env example_rnd ''alice'' ''a@x.com'' False True False
                (Some [''staff-group'']) False None example_empty)) ''alice'' =
     Some \<lparr>email = ''a@x.com'', is_staff = True, is_superuser = False,
           password = ''md5$s1$dummypassword''\<rparr> \<and>
   users (db (update_user example_env example_rnd' ''alice'' ''a@x.com'' False True False
                (Some [''staff-group'']) False None example_empty)) ''alice'' =
     Some \<lparr>email = ''a@x.com'', is_staff = True, is_superuser = False,
           password = ''md5$s2$dummypassword''\<rparr>"
proof -
  have h1: "UserProfile example_env" by (simp add: example_env_def)
  have h2: "users example_empty ''alice'' = None" by (simp add: example_empty_def)
  have enc: "hasher_encode example_env ''dummypassword'' (salt example_rnd) = ''md5$s1$dummypassword''"
    "hasher_encode example_env ''dummypassword'' (salt example_rnd') = ''md5$s2$dummypassword''"
    by (simp_all add: example_env_def example_rnd_def example_rnd'_def)
  show ?thesis
    using h1 h2
      C2_created_password_is_dummypassword [OF h1 h2, of example_rnd "''a@x.com''" True False
        "Some [''staff-group'']"]
      C2_created_password_is_dummypassword [OF h1 h2, of example_rnd' "''a@x.com''" True False
        "Some [''staff-group'']"]
    by (simp add: enc)
qed

text \<open>
  C3, amended. With the \<open>UserProfile\<close> module present, a call for an existing username
  whose stored email differs from the given one after \<open>str.lower\<close>, in remove mode or not,
  raises the \<open>CommandError\<close> whose message names the username; the database is the one
  before the call, nothing was assigned, and the body itself had written nothing when it
  raised.
\<close>

theorem C3_email_mismatch:
  assumes "UserProfile e" "users d username = Some u" "str_lower e (email u) \<noteq> str_lower e em"
  shows "raised (update_user e rnd username em rm st su gs up iph d) =
           Some (CommandError (email_mismatch_message username)) \<and>
         db (update_user e rnd username em rm st su gs up iph d) = d \<and>
         writes (update_user e rnd username em rm st su gs up iph d) = [] \<and>
         db (update_user_body e rnd username em rm st su gs up iph d) = d"
  by (simp add: update_user_mismatch [OF assms] body_mismatch [OF assms])

text \<open>As stated, for every request, C3 fails: without the \<open>UserProfile\<close> module the call
  returns before the email is looked at, and nothing is raised.\<close>

theorem C3_counterexample:
  "str_lower example_env_no_profile (email example_alice) \<noteq>
     str_lower example_env_no_profile ''bob@x.com'' \<and>
   users example_db ''alice'' = Some example_alice \<and>
   raised (update_user example_env_no_profile example_rnd ''alice'' ''bob@x.com'' False False False
             None False None example_db) = None \<and>
   raised (update_user example_env_no_profile example_rnd ''alice'' ''bob@x.com'' True False False
             None False None example_db) = None"
  by (simp add: update_user_guard example_env_no_profile_def example_db_def example_env_def
      example_alice_def ascii_lower_def ascii_lower_char_def)

theorem C3_witness:
  "UserProfile example_env \<and> users example_db ''alice'' = Some example_alice \<and>
   str_lower example_env (email example_alice) \<noteq> str_lower example_env ''bob@x.com'' \<and>
   raised (update_user example_env example_rnd ''alice'' ''bob@x.com'' True False False
             None False None example_db) =
     Some (CommandError (email_mismatch_message ''alice'')) \<and>
   db (update_user example_env example_rnd ''alice'' ''bob@x.com'' True False False
             None False None example_db) = example_db"
proof -
  have h1: "UserProfile example_env" by (simp add: example_env_def)
  have h2: "users example_db ''alice'' = Some example_alice" by (simp add: example_db_def)
  have h3: "str_lower example_env (email example_alice) \<noteq> str_lower example_env ''bob@x.com''"
    by (simp add: example_env_def example_alice_def ascii_lower_def ascii_lower_char_def)
  show ?thesis
    using h1 h2 h3 C3_email_mismatch [OF h1 h2 h3, of example_rnd True False False None False None]
    by simp
qed

text \<open>
  C4. In non-remove mode, a second call with the same arguments on the database the first
  call left (under any random draws) leaves that database as it is, assigns no attribute
  of the user object, and ends as the first call ended.
\<close>

theorem C4_second_run_changes_nothing:
  "db (update_user e rnd2 username em False st su gs up iph
         (db (update_user e rnd1 username em False st su gs up iph d))) =
     db (update_user e rnd1 username em False st su gs up iph d) \<and>
   writes (update_user e rnd2 username em False st su gs up iph
         (db (update_user e rnd1 username em False st su gs up iph d))) = [] \<and>
   raised (update_user e rnd2 username em False st su gs up iph
         (db (update_user e rnd1 username em False st su gs up iph d))) =
     raised (update_user e rnd1 username em False st su gs up iph d)"
proof (cases "UserProfile e")
  case False
  then show ?thesis
    by (simp add: update_user_guard)
next
  case profile: True
  show ?thesis
  proof (cases "users d username")
    case (Some u)
    show ?thesis
    proof (cases "str_lower e (email u) = str_lower e em")
      case True
      show ?thesis
        by (simp add: second_run_existing [OF profile Some True])
    next
      case False
      show ?thesis
        by (simp add: update_user_mismatch [OF profile Some False])
    qed
  next
    case None
    from created_branch_cases [of iph e rnd1 username em
        "d\<lparr>users := (users d)(username \<mapsto>
            \<lparr>email = em, is_staff = False, is_superuser = False, password = ''''\<rparr>)\<rparr>"]
    show ?thesis
    proof (elim disjE exE conjE)
      fix h
      assume h: "iph = Some h" "h \<noteq> []"
        "\<not> (is_password_usable h \<and> is_valid_django_hash e h)"
      show ?thesis
        unfolding h(1) by (simp add: update_user_invalid_hash [OF profile None h(2,3)])
    next
      fix p
      assume "created_branch e rnd1 username em iph
           (d\<lparr>users := (users d)(username \<mapsto>
               \<lparr>email = em, is_staff = False, is_superuser = False, password = ''''\<rparr>)\<rparr>)
           \<lparr>email = em, is_staff = False, is_superuser = False, password = ''''\<rparr> True =
         Inr (\<lparr>email = em, is_staff = False, is_superuser = False, password = p\<rparr>, {}, [''password''])"
      from second_run_created [OF profile None this] show ?thesis
        by simp
    qed
  qed
qed

theorem C4_witness:
  "db (update_user example_env example_rnd' ''alice'' ''alice@x.com'' False True False
         (Some [''B'', ''C'', ''Z'']) True None
         (db (update_user example_env example_rnd ''alice'' ''alice@x.com'' False True False
                (Some [''B'', ''C'', ''Z'']) True None example_db))) =
     db (update_user example_env example_rnd ''alice'' ''alice@x.com'' False True False
                (Some [''B'', ''C'', ''Z'']) True None example_db) \<and>
   writes (update_user example_env example_rnd ''alice'' ''alice@x.com'' False True False
                (Some [''B'', ''C'', ''Z'']) True None example_db) = [''is_staff'', ''password''] \<and>
   writes (update_user example_env example_rnd' ''alice'' ''alice@x.com'' False True False
         (Some [''B'', ''C'', ''Z'']) True None
         (db (update_user example_env example_rnd ''alice'' ''alice@x.com'' False True False
                (Some [''B'', ''C'', ''Z'']) True None example_db))) = []"
proof -
  have h1: "UserProfile example_env" by (simp add: example_env_def)
  have h2: "users example_db ''alice'' = Some example_alice" by (simp add: example_db_def)
  have h3: "str_lower example_env (email example_alice) = str_lower example_env ''alice@x.com''"
    by (simp add: example_env_def example_alice_def ascii_lower_def ascii_lower_char_def)
  have w: "writes (update_user example_env example_rnd ''alice'' ''alice@x.com'' False True False
                (Some [''B'', ''C'', ''Z'']) True None example_db) = [''is_staff'', ''password'']"
    by (simp add: update_user_existing [OF h1 h2 h3] body_existing [OF h1 h2 h3])
       (simp add: example_alice_def is_password_usable_def startswith_def
          UNUSABLE_PASSWORD_PREFIX_def)
  show ?thesis
    using w C4_second_run_changes_nothing [of example_env example_rnd' "''alice''" "''alice@x.com''"
        True False "Some [''B'', ''C'', ''Z'']" True None example_rnd example_db]
    by simp
qed

text \<open>
  C5, amended. With the \<open>UserProfile\<close> module present, a non-remove call that raises
  nothing leaves the account in exactly the groups whose names were asked for and exist
  in the group table: names that do not resolve are dropped, groups held before and not
  asked for are gone. The group table itself is untouched.
\<close>

theorem C5_groups_replaced:
  assumes "UserProfile e"
    and "raised (update_user e rnd username em False st su gs up iph d) = None"
  shows "user_groups (db (update_user e rnd username em False st su gs up iph d)) username =
           {g \<in> set (case gs of None \<Rightarrow> [] | Some names \<Rightarrow> names). g \<in> group_table d} \<and>
         group_table (db (update_user e rnd username em False st su gs up iph d)) = group_table d"
  using assms
proof (cases rule: update_user_success_cases)
  case (existing u)
  show ?thesis
    by (simp add: update_user_existing [OF assms(1) existing] body_existing [OF assms(1) existing]
        resolve_groups_eq)
next
  case (created p)
  show ?thesis
    by (simp add: update_user_created [OF assms(1) created] body_created [OF assms(1) created]
        resolve_groups_eq)
qed

theorem C5_witness:
  "UserProfile example_env \<and>
   raised (update_user example_env example_rnd ''alice'' ''alice@x.com'' False False False
             (Some [''B'', ''C'', ''Z'']) False None example_db) = None \<and>
   user_groups example_db ''alice'' = {''A'', ''B''} \<and>
   user_groups (db (update_user example_env example_rnd ''alice'' ''alice@x.com'' False False False
             (Some [''B'', ''C'', ''Z'']) False None example_db)) ''alice'' = {''B'', ''C''}"
proof -
  have h1: "UserProfile example_env" by (simp add: example_env_def)
  have h2: "users example_db ''alice'' = Some example_alice" by (simp add: example_db_def)
  have h3: "str_lower example_env (email example_alice) = str_lower example_env ''alice@x.com''"
    by (simp add: example_env_def example_alice_def ascii_lower_def ascii_lower_char_def)
  have h4: "raised (update_user example_env example_rnd ''alice'' ''alice@x.com'' False False False
             (Some [''B'', ''C'', ''Z'']) False None example_db) = None"
    by (simp add: update_user_existing [OF h1 h2 h3] body_existing [OF h1 h2 h3])
  have o: "user_groups example_db ''alice'' = {''A'', ''B''}"
    by (simp add: example_db_def)
  note t = C5_groups_replaced [OF h1 h4, unfolded option.case example_resolved]
  show ?thesis
    using h1 h4 o t by simp
qed

text \<open>As stated, for every non-remove call, C5 fails: the names asked for resolve to
  \<open>B\<close> and \<open>C\<close>, but without the \<open>UserProfile\<close> module nothing is replaced, and a call
  that raises (here on the email) leaves the membership as it was.\<close>

theorem C5_counterexample:
  "resolve_groups example_db [''B'', ''C'', ''Z''] {} = {''B'', ''C''} \<and>
   user_groups (db (update_user example_env_no_profile example_rnd ''alice'' ''alice@x.com''
             False False False (Some [''B'', ''C'', ''Z'']) False None example_db)) ''alice'' =
     {''A'', ''B''} \<and>
   user_groups (db (update_user example_env example_rnd ''alice'' ''bob@x.com''
             False False False (Some [''B'', ''C'', ''Z'']) False None example_db)) ''alice'' =
     {''A'', ''B''} \<and>
   {''A'', ''B''} \<noteq> {''B'', ''C''}"
proof -
  have h0: "\<not> UserProfile example_env_no_profile"
    by (simp add: example_env_no_profile_def)
  have h1: "UserProfile example_env" by (simp add: example_env_def)
  have h2: "users example_db ''alice'' = Some example_alice" by (simp add: example_db_def)
  have h3: "str_lower example_env (email example_alice) \<noteq> str_lower example_env ''bob@x.com''"
    by (simp add: example_env_def example_alice_def ascii_lower_def ascii_lower_char_def)
  have o: "user_groups example_db ''alice'' = {''A'', ''B''}"
    by (simp add: example_db_def)
  have a: "user_groups (db (update_user example_env_no_profile example_rnd ''alice''
             ''alice@x.com'' False False False (Some [''B'', ''C'', ''Z'']) False None
             example_db)) ''alice'' = {''A'', ''B''}"
    by (simp only: update_user_guard [OF h0] outcome.simps o)
  have b: "user_groups (db (update_user example_env example_rnd ''alice'' ''bob@x.com''
             False False False (Some [''B'', ''C'', ''Z'']) False None example_db)) ''alice'' =
           {''A'', ''B''}"
    by (simp only: update_user_mismatch [OF h1 h2 h3] outcome.simps o)
  have r: "resolve_groups example_db [''B'', ''C'', ''Z''] {} = {''B'', ''C''}"
    by (simp only: resolve_groups_eq Un_empty_left example_resolved)
  from r a b example_groups_differ show ?thesis
    by (intro conjI)
qed

text \<open>
  C6. Every call ends in one of two ways. Either it raises, with the exception of the
  body, and the database is the one before the call, whatever the body had written by
  then. Or it raises nothing, and the database is the one the body wrote, in full: in a
  non-remove call with the \<open>UserProfile\<close> module present, the user table holds the account
  with the email it had (the given one when created), the two flags as asked, and the
  password left by lines 93 to 113; the account owns a profile; its membership is the
  resolved groups; and every other row, and the group table, are as before.
\<close>

theorem C6_all_or_nothing:
  "raised (update_user e rnd username em rm st su gs up iph d) =
     raised (update_user_body e rnd username em rm st su gs up iph d) \<and>
   (case raised (update_user e rnd username em rm st su gs up iph d) of
      Some err \<Rightarrow> db (update_user e rnd username em rm st su gs up iph d) = d
    | None \<Rightarrow> db (update_user e rnd username em rm st su gs up iph d) =
               db (update_user_body e rnd username em rm st su gs up iph d)) \<and>
   (UserProfile e \<and> \<not> rm \<and> raised (update_user e rnd username em rm st su gs up iph d) = None \<longrightarrow>
      users (db (update_user e rnd username em rm st su gs up iph d)) =
        (users d)(username \<mapsto>
          \<lparr>email = (case users d username of Some u \<Rightarrow> email u | None \<Rightarrow> em),
           is_staff = st, is_superuser = su,
           password =
             (let p = (case users d username of
                         Some u \<Rightarrow> password u
                       | None \<Rightarrow>
                           (case iph of
                              None \<Rightarrow> hasher_encode e ''dummypassword'' (salt rnd)
                            | Some h \<Rightarrow>
                                if h \<noteq> [] then h
                                else hasher_encode e ''dummypassword'' (salt rnd)))
              in if up \<and> is_password_usable p
                 then UNUSABLE_PASSWORD_PREFIX @ unusable_suffix rnd else p)\<rparr>) \<and>
      profiles (db (update_user e rnd username em rm st su gs up iph d)) =
        insert username (profiles d) \<and>
      user_groups (db (update_user e rnd username em rm st su gs up iph d)) =
        (user_groups d)(username :=
          {g \<in> set (case gs of None \<Rightarrow> [] | Some names \<Rightarrow> names). g \<in> group_table d}) \<and>
      group_table (db (update_user e rnd username em rm st su gs up iph d)) = group_table d)"
proof (intro conjI impI)
  show "raised (update_user e rnd username em rm st su gs up iph d) =
     raised (update_user_body e rnd username em rm st su gs up iph d)"
    by (rule update_user_raised)
  show "case raised (update_user e rnd username em rm st su gs up iph d) of
      Some err \<Rightarrow> db (update_user e rnd username em rm st su gs up iph d) = d
    | None \<Rightarrow> db (update_user e rnd username em rm st su gs up iph d) =
               db (update_user_body e rnd username em rm st su gs up iph d)"
    by (simp add: update_user_raised update_user_db split: option.split)
next
  assume a: "UserProfile e \<and> \<not> rm \<and>
    raised (update_user e rnd username em rm st su gs up iph d) = None"
  then have p: "UserProfile e" and rm: "rm = False"
    by simp_all
  from a have ok: "raised (update_user e rnd username em False st su gs up iph d) = None"
    unfolding rm by simp
  let ?r = "update_user e rnd username em False st su gs up iph d"
  let ?user = "\<lparr>email = (case users d username of Some u \<Rightarrow> email u | None \<Rightarrow> em),
           is_staff = st, is_superuser = su,
           password =
             (let p = (case users d username of
                         Some u \<Rightarrow> password u
                       | None \<Rightarrow>
                           (case iph of
                              None \<Rightarrow> hasher_encode e ''dummypassword'' (salt rnd)
                            | Some h \<Rightarrow>
                                if h \<noteq> [] then h
                                else hasher_encode e ''dummypassword'' (salt rnd)))
              in if up \<and> is_password_usable p
                 then UNUSABLE_PASSWORD_PREFIX @ unusable_suffix rnd else p)\<rparr>"
  from p ok
  have "users (db ?r) = (users d)(username \<mapsto> ?user) \<and>
      profiles (db ?r) = insert username (profiles d) \<and>
      user_groups (db ?r) =
        (user_groups d)(username :=
          {g \<in> set (case gs of None \<Rightarrow> [] | Some names \<Rightarrow> names). g \<in> group_table d}) \<and>
      group_table (db ?r) = group_table d"
  proof (cases rule: update_user_success_cases)
    case (existing u)
    show ?thesis
      by (cases u)
        (simp add: update_user_existing [OF p existing] body_existing [OF p existing]
          resolve_groups_eq existing(1))
  next
    case (created q)
    note q = created_branch_password [OF created(2)]
    show ?thesis
      by (simp add: update_user_created [OF p created] body_created [OF p created]
          resolve_groups_eq created(1) q [symmetric])
  qed
  then show "users (db (update_user e rnd username em rm st su gs up iph d)) =
        (users d)(username \<mapsto> ?user)"
    and "profiles (db (update_user e rnd username em rm st su gs up iph d)) =
        insert username (profiles d)"
    and "user_groups (db (update_user e rnd username em rm st su gs up iph d)) =
        (user_groups d)(username :=
          {g \<in> set (case gs of None \<Rightarrow> [] | Some names \<Rightarrow> names). g \<in> group_table d})"
    and "group_table (db (update_user e rnd username em rm st su gs up iph d)) = group_table d"
    unfolding rm by simp_all
qed

text \<open>The witness: a call that raises after \<open>get_or_create\<close> has inserted the row (the body
  holds the partial write, the call does not), and a call that commits the account with
  the staff flag it was asked to set, under the fixed password, with its profile.\<close>

theorem C6_witness:
  "raised (update_user example_env example_rnd ''alice'' ''a@x.com'' False True False None False
             (Some ''garbage'') example_empty) =
     Some (CommandError (invalid_hash_message ''alice'')) \<and>
   users (db (update_user_body example_env example_rnd ''alice'' ''a@x.com'' False True False None
             False (Some ''garbage'') example_empty)) ''alice'' =
     Some \<lparr>email = ''a@x.com'', is_staff = False, is_superuser = False, password = ''''\<rparr> \<and>
   db (update_user example_env example_rnd ''alice'' ''a@x.com'' False True False None False
             (Some ''garbage'') example_empty) = example_empty \<and>
   UserProfile example_env \<and> \<not> False \<and>
   raised (update_user example_env example_rnd ''alice'' ''a@x.com'' False True False
             (Some [''staff-group'']) False None example_empty) = None \<and>
   users (db (update_user example_env example_rnd ''alice'' ''a@x.com'' False True False
             (Some [''staff-group'']) False None example_empty)) ''alice'' =
     Some \<lparr>email = ''a@x.com'', is_staff = True, is_superuser = False,
           password = ''md5$s1$dummypassword''\<rparr> \<and>
   profiles (db (update_user example_env example_rnd ''alice'' ''a@x.com'' False True
             False (Some [''staff-group'']) False None example_empty)) = {''alice''}"
proof -
  have h1: "UserProfile example_env" by (simp add: example_env_def)
  have h2: "users example_empty ''alice'' = None" by (simp add: example_empty_def)
  have h3: "''garbage'' \<noteq> []" by simp
  have h4: "\<not> (is_password_usable ''garbage'' \<and> is_valid_django_hash example_env ''garbage'')"
    by (simp add: is_valid_django_hash_def example_env_def)
  note b = body_invalid_hash [OF h1 h2 h3 h4, of example_rnd "''a@x.com''" True False None False]
  have c: "created_branch example_env example_rnd ''alice'' ''a@x.com'' None
             (example_empty\<lparr>users := (users example_empty)(''alice'' \<mapsto>
                \<lparr>email = ''a@x.com'', is_staff = False, is_superuser = False, password = ''''\<rparr>)\<rparr>)
             \<lparr>email = ''a@x.com'', is_staff = False, is_superuser = False, password = ''''\<rparr> True =
           Inr (\<lparr>email = ''a@x.com'', is_staff = False, is_superuser = False,
                password = hasher_encode example_env ''dummypassword'' (salt example_rnd)\<rparr>,
                {}, [''password''])"
    by (rule created_branch_dummy) simp
  have ok: "raised (update_user_body example_env example_rnd ''alice'' ''a@x.com'' False True False
             (Some [''staff-group'']) False None example_empty) = None"
    by (simp add: body_created [OF h1 h2 c])
  have enc: "hasher_encode example_env ''dummypassword'' (salt example_rnd) =
      ''md5$s1$dummypassword''"
    by (simp add: example_env_def example_rnd_def)
  have pe: "profiles example_empty = {}" by (simp add: example_empty_def)
  note t1 = C6_all_or_nothing [of example_env example_rnd "''alice''" "''a@x.com''" False True
      False None False "Some ''garbage''" example_empty]
  note t2 = C6_all_or_nothing [of example_env example_rnd "''alice''" "''a@x.com''" False True
      False "Some [''staff-group'']" False None example_empty]
  from t1 have e1: "raised (update_user example_env example_rnd ''alice'' ''a@x.com'' False True
      False None False (Some ''garbage'') example_empty) =
      Some (CommandError (invalid_hash_message ''alice''))"
    by (simp add: b)
  with t1 have e2: "db (update_user example_env example_rnd ''alice'' ''a@x.com'' False True
      False None False (Some ''garbage'') example_empty) = example_empty"
    by simp
  have e3: "users (db (update_user_body example_env example_rnd ''alice'' ''a@x.com'' False True
      False None False (Some ''garbage'') example_empty)) ''alice'' =
     Some \<lparr>email = ''a@x.com'', is_staff = False, is_superuser = False, password = ''''\<rparr>"
    by (simp add: b)
  from t2 ok have s1: "raised (update_user example_env example_rnd ''alice'' ''a@x.com'' False
      True False (Some [''staff-group'']) False None example_empty) = None"
    by simp
  have pre: "UserProfile example_env \<and> \<not> False \<and>
      raised (update_user example_env example_rnd ''alice'' ''a@x.com'' False
        True False (Some [''staff-group'']) False None example_empty) = None"
    using h1 s1 by (intro conjI) simp_all
  note post = t2 [THEN conjunct2, THEN conjunct2, THEN mp, OF pre]
  have s2: "users (db (update_user example_env example_rnd ''alice'' ''a@x.com'' False
      True False (Some [''staff-group'']) False None example_empty)) ''alice'' =
     Some \<lparr>email = ''a@x.com'', is_staff = True, is_superuser = False,
           password = ''md5$s1$dummypassword''\<rparr>"
    unfolding post [THEN conjunct1] by (simp add: h2 enc)
  have s4: "profiles (db (update_user example_env example_rnd ''alice'' ''a@x.com''
      False True False (Some [''staff-group'']) False None example_empty)) = {''alice''}"
    unfolding post [THEN conjunct2, THEN conjunct1] by (simp add: pe)
  from e1 e3 e2 h1 s1 s2 s4 show ?thesis
    by (intro conjI) simp_all
qed

text \<open>
  C7. A call on an existing account never changes the stored email, whether or not it
  completes: afterwards the account is either there with the email it had, letter for
  letter, or (in remove mode only) gone.
\<close>

theorem C7_email_never_overwritten:
  assumes "users d username = Some u"
  shows "case users (db (update_user e rnd username em rm st su gs up iph d)) username of
           Some u' \<Rightarrow> email u' = email u
         | None \<Rightarrow> rm"
proof (cases "UserProfile e")
  case False
  with assms show ?thesis
    by (simp add: update_user_guard)
next
  case profile: True
  show ?thesis
  proof (cases "str_lower e (email u) = str_lower e em")
    case False
    with assms show ?thesis
      by (simp add: update_user_mismatch [OF profile assms False])
  next
    case True
    show ?thesis
    proof (cases rm)
      case True
      with \<open>str_lower e (email u) = str_lower e em\<close> show ?thesis
        by (simp add: update_user_remove_match [OF profile assms] delete_user_def)
    next
      case False
      with True show ?thesis
        by (simp add: update_user_existing [OF profile assms] body_existing [OF profile assms])
    qed
  qed
qed

theorem C7_witness:
  "users example_db ''alice'' = Some example_alice \<and>
   email example_alice = ''Alice@X.com'' \<and>
   raised (update_user example_env example_rnd ''alice'' ''alice@x.com'' False True False
             None False None example_db) = None \<and>
   map_option email (users (db (update_user example_env example_rnd ''alice'' ''alice@x.com'' False
             True False None False None example_db)) ''alice'') = Some ''Alice@X.com''"
proof -
  have h1: "UserProfile example_env" by (simp add: example_env_def)
  have h2: "users example_db ''alice'' = Some example_alice" by (simp add: example_db_def)
  have h3: "str_lower example_env (email example_alice) = str_lower example_env ''alice@x.com''"
    by (simp add: example_env_def example_alice_def ascii_lower_def ascii_lower_char_def)
  have em: "email example_alice = ''Alice@X.com''" by (simp add: example_alice_def)
  have ok: "raised (update_user example_env example_rnd ''alice'' ''alice@x.com'' False True False
             None False None example_db) = None"
    by (simp add: update_user_existing [OF h1 h2 h3] body_existing [OF h1 h2 h3])
  note t = C7_email_never_overwritten [where e = example_env and rnd = example_rnd
      and em = "''alice@x.com''" and rm = False and st = True and su = False and gs = None
      and up = False and iph = None, OF h2]
  have "map_option email (users (db (update_user example_env example_rnd ''alice'' ''alice@x.com''
             False True False None False None example_db)) ''alice'') = Some (email example_alice)"
    using t by (simp split: option.splits)
  with h2 em ok show ?thesis
    by simp
qed

text \<open>
  C8, amended. Take a non-remove call with \<open>unusable_password\<close> set. If it runs with the
  \<open>UserProfile\<close> module present and raises nothing, the account's stored credential is
  unusable afterwards, and an existing account whose credential was usable now holds the
  unusable marker. If the account exists and its credential is already unusable, then on
  every path the password is the one stored before and the password attribute is not
  assigned at all.
\<close>

theorem C8_unusable_password_one_way:
  "(UserProfile e \<and> raised (update_user e rnd username em False st su gs True iph d) = None \<longrightarrow>
      (\<exists>u'. users (db (update_user e rnd username em False st su gs True iph d)) username = Some u' \<and>
            \<not> has_usable_password u') \<and>
      (\<forall>u. users d username = Some u \<and> has_usable_password u \<longrightarrow>
         map_option password
           (users (db (update_user e rnd username em False st su gs True iph d)) username) =
         Some (UNUSABLE_PASSWORD_PREFIX @ unusable_suffix rnd))) \<and>
   (\<forall>u. users d username = Some u \<and> \<not> has_usable_password u \<longrightarrow>
      map_option password
        (users (db (update_user e rnd username em False st su gs True iph d)) username) =
        Some (password u) \<and>
      ''password'' \<notin> set (writes (update_user e rnd username em False st su gs True iph d)))"
proof (intro conjI impI allI)
  assume a: "UserProfile e \<and>
    raised (update_user e rnd username em False st su gs True iph d) = None"
  then have p: "UserProfile e"
    and ok: "raised (update_user e rnd username em False st su gs True iph d) = None"
    by simp_all
  from p ok
  show "\<exists>u'. users (db (update_user e rnd username em False st su gs True iph d)) username = Some u' \<and>
            \<not> has_usable_password u'"
  proof (cases rule: update_user_success_cases)
    case (existing u)
    show ?thesis
      by (simp add: update_user_existing [OF p existing] body_existing [OF p existing]
          has_usable_password_def)
  next
    case (created q)
    show ?thesis
      by (simp add: update_user_created [OF p created] body_created [OF p created]
          has_usable_password_def)
  qed
  fix u
  assume "users d username = Some u \<and> has_usable_password u"
  then have u: "users d username = Some u" and us: "is_password_usable (password u)"
    by (simp_all add: has_usable_password_def)
  from p ok
  show "map_option password
           (users (db (update_user e rnd username em False st su gs True iph d)) username) =
         Some (UNUSABLE_PASSWORD_PREFIX @ unusable_suffix rnd)"
  proof (cases rule: update_user_success_cases)
    case (existing v)
    with u have "v = u" by simp
    with existing us show ?thesis
      by (simp add: update_user_existing [OF p existing] body_existing [OF p existing])
  next
    case (created q)
    with u show ?thesis by simp
  qed
next
  fix u
  assume "users d username = Some u \<and> \<not> has_usable_password u"
  then have u: "users d username = Some u" and us: "\<not> is_password_usable (password u)"
    by (simp_all add: has_usable_password_def)
  have "map_option password
        (users (db (update_user e rnd username em False st su gs True iph d)) username) =
        Some (password u) \<and>
      ''password'' \<notin> set (writes (update_user e rnd username em False st su gs True iph d))"
  proof (cases "UserProfile e")
    case False
    with u show ?thesis
      by (simp add: update_user_guard)
  next
    case profile: True
    show ?thesis
    proof (cases "str_lower e (email u) = str_lower e em")
      case False
      with u show ?thesis
        by (simp add: update_user_mismatch [OF profile u False])
    next
      case True
      with us show ?thesis
        by (simp add: update_user_existing [OF profile u True] body_existing [OF profile u True])
    qed
  qed
  then show "map_option password
        (users (db (update_user e rnd username em False st su gs True iph d)) username) =
        Some (password u)"
    and "''password'' \<notin> set (writes (update_user e rnd username em False st su gs True iph d))"
    by simp_all
qed

theorem C8_witness:
  "UserProfile example_env \<and>
   raised (update_user example_env example_rnd ''alice'' ''alice@x.com'' False False False None
             True None example_db) = None \<and>
   users example_db ''alice'' = Some example_alice \<and> has_usable_password example_alice \<and>
   map_option password (users (db (update_user example_env example_rnd ''alice'' ''alice@x.com''
       False False False None True None example_db)) ''alice'') = Some ''!x7'' \<and>
   users example_locked_db ''alice'' = Some (example_alice\<lparr>password := ''!old''\<rparr>) \<and>
   \<not> has_usable_password (example_alice\<lparr>password := ''!old''\<rparr>) \<and>
   map_option password (users (db (update_user example_env example_rnd ''alice'' ''alice@x.com''
       False False False None True None example_locked_db)) ''alice'') = Some ''!old'' \<and>
   ''password'' \<notin> set (writes (update_user example_env example_rnd ''alice'' ''alice@x.com''
       False False False None True None example_locked_db))"
proof -
  have h1: "UserProfile example_env" by (simp add: example_env_def)
  have h2: "users example_db ''alice'' = Some example_alice" by (simp add: example_db_def)
  have h3: "str_lower example_env (email example_alice) = str_lower example_env ''alice@x.com''"
    by (simp add: example_env_def example_alice_def ascii_lower_def ascii_lower_char_def)
  have us: "has_usable_password example_alice"
    by (simp add: has_usable_password_def example_alice_def is_password_usable_def
        startswith_def UNUSABLE_PASSWORD_PREFIX_def)
  have ok: "raised (update_user example_env example_rnd ''alice'' ''alice@x.com'' False False False
             None True None example_db) = None"
    by (simp add: update_user_existing [OF h1 h2 h3] body_existing [OF h1 h2 h3])
  have sf: "UNUSABLE_PASSWORD_PREFIX @ unusable_suffix example_rnd = ''!x7''"
    by (simp add: UNUSABLE_PASSWORD_PREFIX_def example_rnd_def)
  have l2: "users example_locked_db ''alice'' = Some (example_alice\<lparr>password := ''!old''\<rparr>)"
    by (simp add: example_locked_db_def)
  have lus: "\<not> has_usable_password (example_alice\<lparr>password := ''!old''\<rparr>)"
    by (simp add: has_usable_password_def is_password_usable_def startswith_def
        UNUSABLE_PASSWORD_PREFIX_def)
  note t1 = C8_unusable_password_one_way [of example_env example_rnd "''alice''" "''alice@x.com''"
      False False None None example_db]
  note t2 = C8_unusable_password_one_way [of example_env example_rnd "''alice''" "''alice@x.com''"
      False False None None example_locked_db]
  from t1 h1 ok h2 us
  have a: "map_option password (users (db (update_user example_env example_rnd ''alice''
       ''alice@x.com'' False False False None True None example_db)) ''alice'') =
       Some (UNUSABLE_PASSWORD_PREFIX @ unusable_suffix example_rnd)"
    by blast
  from t2 l2 lus
  have b: "map_option password (users (db (update_user example_env example_rnd ''alice''
       ''alice@x.com'' False False False None True None example_locked_db)) ''alice'') =
       Some (password (example_alice\<lparr>password := ''!old''\<rparr>))"
    and c: "''password'' \<notin> set (writes (update_user example_env example_rnd ''alice''
       ''alice@x.com'' False False False None True None example_locked_db))"
    by blast+
  from b have b': "map_option password (users (db (update_user example_env example_rnd ''alice''
       ''alice@x.com'' False False False None True None example_locked_db)) ''alice'') =
       Some ''!old''"
    by simp
  from h1 ok h2 us a [unfolded sf] l2 lus b' c show ?thesis
    by (intro conjI)
qed

text \<open>As stated, for every call with \<open>unusable_password\<close> set, C8 fails: without the
  \<open>UserProfile\<close> module, and when the call raises (here on the email), a usable
  credential stays usable.\<close>

theorem C8_counterexample:
  "users example_db ''alice'' = Some example_alice \<and> has_usable_password example_alice \<and>
   users (db (update_user example_env_no_profile example_rnd ''alice'' ''alice@x.com'' False
       False False None True None example_db)) ''alice'' = Some example_alice \<and>
   users (db (update_user example_env example_rnd ''alice'' ''bob@x.com'' False
       False False None True None example_db)) ''alice'' = Some example_alice"
proof -
  have h0: "\<not> UserProfile example_env_no_profile"
    by (simp add: example_env_no_profile_def)
  have h1: "UserProfile example_env" by (simp add: example_env_def)
  have h2: "users example_db ''alice'' = Some example_alice" by (simp add: example_db_def)
  have h3: "str_lower example_env (email example_alice) \<noteq> str_lower example_env ''bob@x.com''"
    by (simp add: example_env_def example_alice_def ascii_lower_def ascii_lower_char_def)
  have us: "has_usable_password example_alice"
    by (simp add: has_usable_password_def example_alice_def is_password_usable_def
        startswith_def UNUSABLE_PASSWORD_PREFIX_def)
  show ?thesis
    using h2 us
    by (simp add: update_user_guard [OF h0] update_user_mismatch [OF h1 h2 h3])
qed

text \<open>
  C9. Without the \<open>UserProfile\<close> module, every call, whatever its arguments and in
  remove mode too, writes the entering line, logs the error and returns: no exception, the
  database as it was, no attribute assigned.
\<close>

theorem C9_no_profile_module_is_noop:
  "\<not> UserProfile e \<Longrightarrow>
   update_user e rnd username em rm st su gs up iph d =
     \<lparr>raised = None, db = d,
      trace = [StderrWrite (entering_message username),
               LoggerError ''UserProfile module does not exist.''],
      writes = []\<rparr>"
  by (rule update_user_guard)

theorem C9_witness:
  "\<not> UserProfile example_env_no_profile \<and>
   raised (update_user example_env_no_profile example_rnd ''alice'' ''Alice@X.com'' True False False
             None False None example_db) = None \<and>
   users (db (update_user example_env_no_profile example_rnd ''alice'' ''Alice@X.com'' True False
             False None False None example_db)) ''alice'' = Some example_alice"
proof -
  have h: "\<not> UserProfile example_env_no_profile"
    by (simp add: example_env_no_profile_def)
  show ?thesis
    using h by (simp add: C9_no_profile_module_is_noop [OF h] example_db_def)
qed

text \<open>
  C10. A non-remove call on an account that already exists leaves an account there, and
  its password is either the one stored before or, only when \<open>unusable_password\<close> is set
  and the stored credential is usable, the unusable marker. The whole outcome is the one
  of the same call without \<open>initial_password_hash\<close>.
\<close>

theorem C10_password_of_existing_account:
  assumes "users d username = Some u"
  shows "(\<exists>u'. users (db (update_user e rnd username em False st su gs up iph d)) username = Some u' \<and>
            (password u' = password u \<or>
             up \<and> has_usable_password u \<and>
             password u' = UNUSABLE_PASSWORD_PREFIX @ unusable_suffix rnd) \<and>
            (\<not> up \<longrightarrow> password u' = password u)) \<and>
         update_user e rnd username em False st su gs up iph d =
           update_user e rnd username em False st su gs up None d"
proof (cases "UserProfile e")
  case False
  with assms show ?thesis
    by (simp add: update_user_guard)
next
  case profile: True
  show ?thesis
  proof (cases "str_lower e (email u) = str_lower e em")
    case False
    with assms show ?thesis
      by (simp add: update_user_mismatch [OF profile assms False])
  next
    case True
    show ?thesis
      by (simp add: update_user_existing [OF profile assms True]
          body_existing [OF profile assms True] has_usable_password_def)
  qed
qed

theorem C10_witness:
  "users example_db ''alice'' = Some example_alice \<and>
   is_valid_django_hash example_env ''md5$zz$new'' \<and>
   map_option password (users (db (update_user example_env example_rnd ''alice'' ''alice@x.com''
       False True False None False (Some ''md5$zz$new'') example_db)) ''alice'') =
     Some ''md5$ab$pw'' \<and>
   map_option password (users (db (update_user example_env example_rnd ''alice'' ''alice@x.com''
       False True False None True (Some ''md5$zz$new'') example_db)) ''alice'') =
     Some ''!x7''"
proof -
  have h1: "UserProfile example_env" by (simp add: example_env_def)
  have h2: "users example_db ''alice'' = Some example_alice" by (simp add: example_db_def)
  have h3: "str_lower example_env (email example_alice) = str_lower example_env ''alice@x.com''"
    by (simp add: example_env_def example_alice_def ascii_lower_def ascii_lower_char_def)
  have v: "is_valid_django_hash example_env ''md5$zz$new''"
    by (simp add: is_valid_django_hash_def example_env_def)
  have pw: "password example_alice = ''md5$ab$pw''" by (simp add: example_alice_def)
  have us: "is_password_usable ''md5$ab$pw''"
    by (simp add: is_password_usable_def startswith_def UNUSABLE_PASSWORD_PREFIX_def)
  have sf: "UNUSABLE_PASSWORD_PREFIX @ unusable_suffix example_rnd = ''!x7''"
    by (simp add: UNUSABLE_PASSWORD_PREFIX_def example_rnd_def)
  note t1 = C10_password_of_existing_account [OF h2, of example_env example_rnd "''alice@x.com''"
      True False None False "Some ''md5$zz$new''"]
  note t2 = C10_password_of_existing_account [OF h2, of example_env example_rnd "''alice@x.com''"
      True False None True "Some ''md5$zz$new''"]
  from t1 have a: "map_option password (users (db (update_user example_env example_rnd ''alice''
       ''alice@x.com'' False True False None False (Some ''md5$zz$new'') example_db)) ''alice'') =
     Some ''md5$ab$pw''"
    by (auto simp: pw)
  from t2 have "update_user example_env example_rnd ''alice'' ''alice@x.com''
       False True False None True (Some ''md5$zz$new'') example_db =
       update_user example_env example_rnd ''alice'' ''alice@x.com''
       False True False None True None example_db"
    by simp
  then have b: "map_option password (users (db (update_user example_env example_rnd ''alice''
       ''alice@x.com'' False True False None True (Some ''md5$zz$new'') example_db)) ''alice'') =
     Some ''!x7''"
    by (simp add: update_user_existing [OF h1 h2 h3] body_existing [OF h1 h2 h3] pw us sf)
  from h2 v a b show ?thesis
    by (intro conjI)
qed

end
